theory Spec2Isabelle
  imports Complex_Main
begin

section \<open>Data model (types.ts)\<close>

text \<open>
  JavaScript numbers are modelled as reals (exact arithmetic, no rounding, no infinities);
  a literal such as \<open>1.0\<close> is written \<open>1\<close>.
  The one place where the source can turn real inputs into NaN, the confidence diagnostic
  of the estimator, is written out with the type \<open>jsnum\<close> below.
  Object identity is not modelled; every object is a value.
\<close>

datatype BreathPhase = inhale | holdIn | exhale | holdOut

datatype RuntimeStatus = IDLE | RUNNING | PAUSED | HALTED | SAFETY_LOCK

datatype jsnum = Num real | NaN

record BeliefState =
  arousal :: real
  attention :: real
  rhythm_alignment :: real
  arousal_variance :: real
  attention_variance :: real
  rhythm_variance :: real
  prediction_error :: real
  confidence :: jsnum

datatype interaction = pause | resume | touch

datatype visibility = visible | hidden

text \<open>An optional field of the source (\<open>heart_rate?: number\<close>) is an option: \<open>None\<close> is
  \<open>undefined\<close>. The field name \<open>visibilty_state\<close> is spelled as in the source.\<close>

record Observation =
  timestamp :: real
  delta_time :: real
  user_interaction :: "interaction option"
  visibilty_state :: visibility
  heart_rate :: "real option"
  hr_confidence :: "real option"

text \<open>The field \<open>cummulative_stress_score\<close> is spelled as in the source.\<close>

record SafetyProfile =
  patternId :: string
  cummulative_stress_score :: int
  last_incident_timestamp :: real
  safety_lock_until :: real
  resonance_history :: "real list"

text \<open>A pattern's \<open>timings: Record<BreathPhase, number>\<close> is a function of the phase. The
  presentation fields \<open>tag\<close>, \<open>description\<close> and \<open>colorTheme\<close> are left out; the field
  \<open>id\<close> is called \<open>pattern_id\<close>.\<close>

record BreathPattern =
  pattern_id :: string
  label :: string
  timings :: "BreathPhase \<Rightarrow> real"
  recommendedCycles :: nat
  tier :: nat

definition timings_rec :: "real \<Rightarrow> real \<Rightarrow> real \<Rightarrow> real \<Rightarrow> BreathPhase \<Rightarrow> real" where
  "timings_rec i hi e ho p = (case p of inhale \<Rightarrow> i | holdIn \<Rightarrow> hi | exhale \<Rightarrow> e | holdOut \<Rightarrow> ho)"

definition BREATHING_PATTERNS :: "string \<rightharpoonup> BreathPattern" where
  "BREATHING_PATTERNS = map_of
    [(''4-7-8'', \<lparr>pattern_id = ''4-7-8'', label = ''Tranquility'', timings = timings_rec 4 7 8 0,
        recommendedCycles = 4, tier = 1\<rparr>),
     (''box'', \<lparr>pattern_id = ''box'', label = ''Focus'', timings = timings_rec 4 4 4 4,
        recommendedCycles = 6, tier = 1\<rparr>),
     (''calm'', \<lparr>pattern_id = ''calm'', label = ''Balance'', timings = timings_rec 4 0 6 0,
        recommendedCycles = 8, tier = 1\<rparr>),
     (''coherence'', \<lparr>pattern_id = ''coherence'', label = ''Coherence'', timings = timings_rec 6 0 6 0,
        recommendedCycles = 10, tier = 2\<rparr>),
     (''deep-relax'', \<lparr>pattern_id = ''deep-relax'', label = ''Deep Rest'', timings = timings_rec 4 0 8 0,
        recommendedCycles = 6, tier = 1\<rparr>),
     (''7-11'', \<lparr>pattern_id = ''7-11'', label = ''7-11'', timings = timings_rec 7 0 11 0,
        recommendedCycles = 4, tier = 2\<rparr>),
     (''awake'', \<lparr>pattern_id = ''awake'', label = ''Energize'', timings = timings_rec 4 0 2 0,
        recommendedCycles = 15, tier = 2\<rparr>),
     (''triangle'', \<lparr>pattern_id = ''triangle'', label = ''Triangle'', timings = timings_rec 4 4 4 0,
        recommendedCycles = 8, tier = 1\<rparr>),
     (''tactical'', \<lparr>pattern_id = ''tactical'', label = ''Tactical'', timings = timings_rec 5 5 5 5,
        recommendedCycles = 5, tier = 2\<rparr>),
     (''buteyko'', \<lparr>pattern_id = ''buteyko'', label = ''Light Air'', timings = timings_rec 3 0 3 4,
        recommendedCycles = 12, tier = 3\<rparr>),
     (''wim-hof'', \<lparr>pattern_id = ''wim-hof'', label = ''Tummo Power'', timings = timings_rec 2 0 1 15,
        recommendedCycles = 30, tier = 3\<rparr>)]"

datatype interruption_kind = kind_pause | kind_background

text \<open>The tagged union \<open>KernelEvent\<close>; the last argument of every constructor is the
  event's \<open>timestamp\<close>.\<close>

datatype KernelEvent =
    BOOT real
  | LOAD_PROTOCOL string real
  | START_SESSION real
  | TICK real Observation real
  | BELIEF_UPDATE BeliefState real
  | PHASE_TRANSITION BreathPhase BreathPhase real
  | CYCLE_COMPLETE int real
  | INTERRUPTION interruption_kind real
  | RESUME real
  | HALT string real
  | SAFETY_INTERDICTION real string real
  | LOAD_SAFETY_REGISTRY "string \<rightharpoonup> SafetyProfile" real

section \<open>The kernel (PureZenBKernel.ts)\<close>

record RuntimeState =
  version :: nat
  status :: RuntimeStatus
  bootTimestamp :: real
  lastUpdateTimestamp :: real
  pattern :: "BreathPattern option"
  phase :: BreathPhase
  phaseStartTime :: real
  phaseDuration :: real
  cycleCount :: int
  sessionStartTime :: real
  belief :: BeliefState
  safetyRegistry :: "string \<rightharpoonup> SafetyProfile"
  phaseElapsed :: real
  sessionDuration :: real
  lastObservation :: "Observation option"

text \<open>\<open>createInitialState\<close> reads \<open>Date.now()\<close> twice; the two readings are parameters.\<close>

definition createInitialState :: "real \<Rightarrow> real \<Rightarrow> RuntimeState" where
  "createInitialState now1 now2 =
    \<lparr>version = 2, status = IDLE, bootTimestamp = now1, lastUpdateTimestamp = now2,
     pattern = None, phase = inhale, phaseStartTime = 0, phaseDuration = 0, cycleCount = 0,
     sessionStartTime = 0,
     belief = \<lparr>arousal = 0.5, attention = 0.5, rhythm_alignment = 0,
       arousal_variance = 0.2, attention_variance = 0.2, rhythm_variance = 0.3,
       prediction_error = 0, confidence = Num 0\<rparr>,
     safetyRegistry = Map.empty, phaseElapsed = 0, sessionDuration = 0,
     lastObservation = None\<rparr>"

text \<open>The pure reducer. The source's \<open>default\<close> branch (an event of no known kind) has no
  counterpart: \<open>KernelEvent\<close> is closed.\<close>

fun reduce :: "RuntimeState \<Rightarrow> KernelEvent \<Rightarrow> RuntimeState" where
  "reduce state (BOOT ts) = state\<lparr>status := IDLE, lastUpdateTimestamp := ts\<rparr>"
| "reduce state (LOAD_PROTOCOL pid ts) =
    (if status state = SAFETY_LOCK then state
     else case BREATHING_PATTERNS pid of
       None \<Rightarrow> state
     | Some pat \<Rightarrow>
         state\<lparr>pattern := Some pat, phase := inhale, phaseStartTime := ts,
           phaseDuration := timings pat inhale, cycleCount := 0, sessionStartTime := 0,
           belief := (belief state)\<lparr>rhythm_alignment := 0, prediction_error := 0,
             confidence := Num 0\<rparr>,
           lastUpdateTimestamp := ts\<rparr>)"
| "reduce state (START_SESSION ts) =
    (case pattern state of
       None \<Rightarrow> state
     | Some pat \<Rightarrow>
         state\<lparr>status := RUNNING, sessionStartTime := ts, phaseStartTime := ts,
           lastUpdateTimestamp := ts\<rparr>)"
| "reduce state (INTERRUPTION k ts) =
    (if status state \<noteq> RUNNING then state
     else state\<lparr>status := PAUSED, lastUpdateTimestamp := ts\<rparr>)"
| "reduce state (RESUME ts) =
    (if status state \<noteq> PAUSED then state
     else let pauseDuration = ts - lastUpdateTimestamp state in
       state\<lparr>status := RUNNING, phaseStartTime := phaseStartTime state + pauseDuration,
         lastUpdateTimestamp := ts\<rparr>)"
| "reduce state (HALT reason ts) = state\<lparr>status := HALTED, lastUpdateTimestamp := ts\<rparr>"
| "reduce state (SAFETY_INTERDICTION riskLevel action ts) =
    state\<lparr>status := SAFETY_LOCK, lastUpdateTimestamp := ts\<rparr>"
| "reduce state (PHASE_TRANSITION from to ts) =
    (case pattern state of
       None \<Rightarrow> state
     | Some pat \<Rightarrow>
         let newDuration = timings pat to in
         state\<lparr>phase := to, phaseStartTime := ts, phaseDuration := newDuration,
           lastUpdateTimestamp := ts\<rparr>)"
| "reduce state (CYCLE_COMPLETE count ts) =
    state\<lparr>cycleCount := count, lastUpdateTimestamp := ts\<rparr>"
| "reduce state (BELIEF_UPDATE b ts) = state\<lparr>belief := b, lastUpdateTimestamp := ts\<rparr>"
| "reduce state (TICK dt observation ts) =
    state\<lparr>lastUpdateTimestamp := ts, lastObservation := Some observation\<rparr>"
| "reduce state (LOAD_SAFETY_REGISTRY registry ts) =
    state\<lparr>safetyRegistry := registry, lastUpdateTimestamp := ts\<rparr>"

text \<open>
  The safety guard. \<open>now1\<close> is the guard's first reading of \<open>Date.now()\<close> and \<open>now2\<close> its
  second: rules 1 and 2 read the clock once (for the timestamp of the interdiction), rule 3
  reads it for the comparison and again for the timestamp. The three rules test three
  different kinds of event, so their order is that of the cases. A profile object is
  always truthy, so \<open>profile && ...\<close> is the test that the registry has the key.
\<close>

definition defaultSafetyGuard :: "real \<Rightarrow> real \<Rightarrow> KernelEvent \<Rightarrow> RuntimeState \<Rightarrow> KernelEvent option" where
  "defaultSafetyGuard now1 now2 event state =
    (case event of
       START_SESSION ts \<Rightarrow>
         (if status state = SAFETY_LOCK
          then Some (SAFETY_INTERDICTION 1 ''REJECT_START'' now1)
          else Some event)
     | BELIEF_UPDATE b ts \<Rightarrow>
         (if prediction_error b > 0.95 \<and> sessionDuration state > 10
          then Some (SAFETY_INTERDICTION 0.95 ''EMERGENCY_HALT'' now1)
          else Some event)
     | LOAD_PROTOCOL pid ts \<Rightarrow>
         (case safetyRegistry state pid of
            None \<Rightarrow> Some event
          | Some profile \<Rightarrow>
              (if safety_lock_until profile > now1
               then Some (SAFETY_INTERDICTION 0.8 ''PATTERN_LOCKED'' now2)
               else Some event))
     | _ \<Rightarrow> Some event)"

text \<open>
  The kernel object. Subscriber callbacks and middlewares are opaque functions of the
  embedding application: each is named by a number, a \<open>Set\<close> of callbacks is the list of
  its members in insertion order, and what a callback or middleware does when called is
  reduced to whether it throws (the parameters \<open>cb_throws\<close> and \<open>mw_throws\<close>). A callback
  that calls back into the kernel is outside this model. The estimator field is modelled
  on its own in the next section.
\<close>

record Kernel =
  state :: RuntimeState
  eventLog :: "KernelEvent list"
  subscribers :: "nat list"
  middlewares :: "nat list"

definition MAX_LOG_SIZE :: nat where
  "MAX_LOG_SIZE = 1000"

definition computeDerivedFields :: "real \<Rightarrow> RuntimeState \<Rightarrow> RuntimeState" where
  "computeDerivedFields now st =
    st\<lparr>phaseElapsed := (if status st = RUNNING then max 0 ((now - phaseStartTime st) / 1000) else 0),
       sessionDuration := (if sessionStartTime st > 0 then max 0 ((now - sessionStartTime st) / 1000) else 0)\<rparr>"

text \<open>\<open>notify\<close> calls every subscriber with the current state, in insertion order, and
  catches what a subscriber throws: its result is the list of the calls made.\<close>

definition notify :: "Kernel \<Rightarrow> (nat \<times> RuntimeState) list" where
  "notify k = map (\<lambda>cb. (cb, state k)) (subscribers k)"

text \<open>
  The outcome of one \<open>dispatch\<close>: the kernel after it, the calls made to subscribers, and
  whether the call ended by an exception (a middleware threw: \<open>forEach\<close> over the
  middlewares is not guarded, and \<open>notify\<close> is then never reached). \<open>now3\<close> is the clock
  reading of \<open>computeDerivedFields\<close>.
\<close>

record DispatchResult =
  kernel_after :: Kernel
  notified :: "(nat \<times> RuntimeState) list"
  raised :: bool

definition dispatch ::
  "(nat \<Rightarrow> KernelEvent \<Rightarrow> RuntimeState \<Rightarrow> RuntimeState \<Rightarrow> bool) \<Rightarrow> real \<Rightarrow> real \<Rightarrow> real \<Rightarrow>
   Kernel \<Rightarrow> KernelEvent \<Rightarrow> DispatchResult" where
  "dispatch mw_throws now1 now2 now3 k event =
    (let beforeState = state k in
     case defaultSafetyGuard now1 now2 event beforeState of
       None \<Rightarrow> \<lparr>kernel_after = k, notified = [], raised = False\<rparr>
     | Some guardedEvent \<Rightarrow>
         let log1 = eventLog k @ [guardedEvent];
             log2 = (if length log1 > MAX_LOG_SIZE then tl log1 else log1);
             reducedState = reduce beforeState guardedEvent;
             enrichedState = computeDerivedFields now3 reducedState;
             k' = k\<lparr>state := enrichedState, eventLog := log2\<rparr>
         in if list_ex (\<lambda>mw. mw_throws mw guardedEvent beforeState enrichedState) (middlewares k)
            then \<lparr>kernel_after = k', notified = [], raised = True\<rparr>
            else \<lparr>kernel_after = k', notified = notify k', raised = False\<rparr>)"

text \<open>
  \<open>subscribe\<close> adds the callback to the set (a callback already in the set keeps its
  place), calls it once with the current state, outside any \<open>try\<close>, and returns the
  closure that deletes it. When the callback throws, the exception leaves \<open>subscribe\<close>
  and no closure is returned (\<open>sub_return = None\<close>); the callback stays subscribed.
\<close>

record SubscribeResult =
  sub_kernel :: Kernel
  sub_calls :: "(nat \<times> RuntimeState) list"
  sub_return :: "(Kernel \<Rightarrow> Kernel) option"

definition subscribe :: "(nat \<Rightarrow> RuntimeState \<Rightarrow> bool) \<Rightarrow> Kernel \<Rightarrow> nat \<Rightarrow> SubscribeResult" where
  "subscribe cb_throws k callback =
    (let k' = k\<lparr>subscribers :=
           (if callback \<in> set (subscribers k) then subscribers k else subscribers k @ [callback])\<rparr>
     in \<lparr>sub_kernel = k',
         sub_calls = [(callback, state k')],
         sub_return =
           (if cb_throws callback (state k') then None
            else Some (\<lambda>k2. k2\<lparr>subscribers := removeAll callback (subscribers k2)\<rparr>))\<rparr>)"

definition loadSafetyRegistry ::
  "(nat \<Rightarrow> KernelEvent \<Rightarrow> RuntimeState \<Rightarrow> RuntimeState \<Rightarrow> bool) \<Rightarrow> real \<Rightarrow> real \<Rightarrow> real \<Rightarrow> real \<Rightarrow>
   Kernel \<Rightarrow> (string \<rightharpoonup> SafetyProfile) \<Rightarrow> DispatchResult" where
  "loadSafetyRegistry mw_throws now0 now1 now2 now3 k registry =
    dispatch mw_throws now1 now2 now3 k (LOAD_SAFETY_REGISTRY registry now0)"

section \<open>The estimator (AdaptiveStateEstimator.ts)\<close>

record TargetState =
  target_arousal :: real
  target_attention :: real
  target_rhythm_alignment :: real

text \<open>The keys of \<open>PROTOCOL_TARGETS\<close> are a datatype, so the table is a total function.\<close>

datatype target_key = parasympathetic | balanced | sympathetic | default_target

definition PROTOCOL_TARGETS :: "target_key \<Rightarrow> TargetState" where
  "PROTOCOL_TARGETS key = (case key of
      parasympathetic \<Rightarrow> \<lparr>target_arousal = 0.2, target_attention = 0.5, target_rhythm_alignment = 0.8\<rparr>
    | balanced \<Rightarrow> \<lparr>target_arousal = 0.4, target_attention = 0.7, target_rhythm_alignment = 0.9\<rparr>
    | sympathetic \<Rightarrow> \<lparr>target_arousal = 0.7, target_attention = 0.8, target_rhythm_alignment = 0.6\<rparr>
    | default_target \<Rightarrow> \<lparr>target_arousal = 0.5, target_attention = 0.6, target_rhythm_alignment = 0.7\<rparr>)"

definition PATTERN_TO_TARGET :: "string \<rightharpoonup> target_key" where
  "PATTERN_TO_TARGET = map_of
    [(''4-7-8'', parasympathetic), (''deep-relax'', parasympathetic), (''7-11'', parasympathetic),
     (''coherence'', balanced), (''calm'', balanced), (''box'', balanced), (''triangle'', balanced),
     (''tactical'', balanced), (''awake'', sympathetic), (''wim-hof'', sympathetic),
     (''buteyko'', parasympathetic)]"

record Estimator =
  est_belief :: BeliefState
  est_target :: TargetState

definition PROCESS_NOISE :: real where "PROCESS_NOISE = 0.01"
definition MEASUREMENT_NOISE_HR :: real where "MEASUREMENT_NOISE_HR = 0.15"
definition MEASUREMENT_NOISE_CONTEXT :: real where "MEASUREMENT_NOISE_CONTEXT = 0.05"
definition TAU_AROUSAL :: real where "TAU_AROUSAL = 15"
definition TAU_ATTENTION :: real where "TAU_ATTENTION = 5"
definition TAU_RHYTHM :: real where "TAU_RHYTHM = 10"

definition AdaptiveStateEstimator_new :: Estimator where
  "AdaptiveStateEstimator_new =
    \<lparr>est_belief = \<lparr>arousal = 0.5, attention = 0.5, rhythm_alignment = 0,
       arousal_variance = 0.2, attention_variance = 0.2, rhythm_variance = 0.3,
       prediction_error = 0, confidence = Num 0\<rparr>,
     est_target = PROTOCOL_TARGETS default_target\<rparr>"

definition setProtocol :: "Estimator \<Rightarrow> BreathPattern option \<Rightarrow> Estimator" where
  "setProtocol est pat =
    (case pat of
       None \<Rightarrow> est\<lparr>est_target := PROTOCOL_TARGETS default_target\<rparr>
     | Some p \<Rightarrow>
         let targetKey = (case PATTERN_TO_TARGET (pattern_id p) of
                            None \<Rightarrow> default_target | Some key \<Rightarrow> key)
         in est\<lparr>est_target := PROTOCOL_TARGETS targetKey\<rparr>)"

text \<open>\<open>clamp\<close> is only ever called with its default bounds 0 and 1.\<close>

definition clamp :: "real \<Rightarrow> real" where
  "clamp v = max 0 (min 1 v)"

text \<open>\<open>Math.max(0, Math.min(1, NaN))\<close> is NaN.\<close>

fun clamp_js :: "jsnum \<Rightarrow> jsnum" where
  "clamp_js (Num v) = Num (clamp v)"
| "clamp_js NaN = NaN"

text \<open>\<open>Math.pow(x, 1/3)\<close>: the cube root of a base that is not negative, NaN for a
  negative base (the exponent is not an integer).\<close>

definition Math_pow_third :: "real \<Rightarrow> jsnum" where
  "Math_pow_third x = (if x < 0 then NaN else Num (root 3 x))"

definition predict :: "Estimator \<Rightarrow> real \<Rightarrow> BeliefState" where
  "predict est dt =
    (let b = est_belief est; tg = est_target est;
         alpha_arousal = 1 - exp (- dt / TAU_AROUSAL);
         alpha_attention = 1 - exp (- dt / TAU_ATTENTION);
         alpha_rhythm = 1 - exp (- dt / TAU_RHYTHM);
         predicted_arousal = arousal b + alpha_arousal * (target_arousal tg - arousal b);
         predicted_attention = attention b + alpha_attention * (target_attention tg - attention b);
         predicted_rhythm = rhythm_alignment b
            + alpha_rhythm * (target_rhythm_alignment tg - rhythm_alignment b);
         predicted_arousal_var = arousal_variance b + PROCESS_NOISE * dt;
         predicted_attention_var = attention_variance b + PROCESS_NOISE * dt;
         predicted_rhythm_var = rhythm_variance b + PROCESS_NOISE * dt
     in \<lparr>arousal = clamp predicted_arousal, attention = clamp predicted_attention,
         rhythm_alignment = clamp predicted_rhythm,
         arousal_variance = predicted_arousal_var, attention_variance = predicted_attention_var,
         rhythm_variance = predicted_rhythm_var, prediction_error = 0, confidence = Num 0\<rparr>)"

text \<open>The three stages of \<open>correct\<close>, in the order of the source: the arousal correction
  from the heart rate, the attention and rhythm correction from the interaction, and the
  final clamping. Division is that of the reals; the denominators are positive whenever the
  variances are not negative.\<close>

definition correct_arousal :: "BeliefState \<Rightarrow> Observation \<Rightarrow> BeliefState" where
  "correct_arousal predicted obs =
    (case heart_rate obs of
       None \<Rightarrow> predicted
     | Some hr \<Rightarrow>
        (case hr_confidence obs of
           None \<Rightarrow> predicted
         | Some c \<Rightarrow>
            if c > 0.5 then
              let normalized_hr = clamp ((hr - 50) / 70);
                  K_arousal = arousal_variance predicted
                     / (arousal_variance predicted + MEASUREMENT_NOISE_HR);
                  innovation = normalized_hr - arousal predicted
              in predicted\<lparr>arousal := arousal predicted + K_arousal * innovation,
                   arousal_variance := (1 - K_arousal) * arousal_variance predicted\<rparr>
            else predicted))"

definition correct_attention :: "BeliefState \<Rightarrow> BeliefState \<Rightarrow> Observation \<Rightarrow> real \<Rightarrow> BeliefState" where
  "correct_attention predicted corrected obs dt =
    (let isDistracted = (user_interaction obs = Some pause \<or> visibilty_state obs = hidden) in
     if isDistracted then
       let K_attention = attention_variance predicted
              / (attention_variance predicted + MEASUREMENT_NOISE_CONTEXT);
           target_attention = 0.1;
           innovation = target_attention - attention predicted
       in corrected\<lparr>attention := attention predicted + K_attention * innovation,
            attention_variance := (1 - K_attention) * attention_variance predicted,
            rhythm_alignment := max 0 (rhythm_alignment corrected - 0.5 * dt)\<rparr>
     else
       corrected\<lparr>attention := min 1 (attention corrected + 0.15 * dt),
         attention_variance := max 0.05 (attention_variance corrected - 0.02 * dt),
         rhythm_alignment := min 1 (rhythm_alignment corrected + 0.1 * dt),
         rhythm_variance := max 0.05 (rhythm_variance corrected - 0.01 * dt)\<rparr>)"

definition correct :: "BeliefState \<Rightarrow> Observation \<Rightarrow> real \<Rightarrow> BeliefState" where
  "correct predicted obs dt =
    (let corrected = correct_attention predicted (correct_arousal predicted obs) obs dt
     in corrected\<lparr>arousal := clamp (arousal corrected), attention := clamp (attention corrected),
          rhythm_alignment := clamp (rhythm_alignment corrected)\<rparr>)"

definition computePredictionError :: "TargetState \<Rightarrow> BeliefState \<Rightarrow> real" where
  "computePredictionError tg st =
    (let error_arousal = (arousal st - target_arousal tg) ^ 2;
         error_attention = (attention st - target_attention tg) ^ 2;
         error_rhythm = (rhythm_alignment st - target_rhythm_alignment tg) ^ 2;
         mse = 0.4 * error_arousal + 0.3 * error_attention + 0.3 * error_rhythm
     in sqrt mse)"

text \<open>\<open>obs.hr_confidence ?? 0.0\<close> is 0 when the field is absent, and
  \<open>sensor_quality || 1.0\<close> is 1 when \<open>sensor_quality\<close> is 0.\<close>

definition computeConfidence :: "BeliefState \<Rightarrow> Observation \<Rightarrow> jsnum" where
  "computeConfidence st obs =
    (let certainty = 1 - min 1 ((arousal_variance st + attention_variance st + rhythm_variance st) / 3);
         sensor_quality = (case hr_confidence obs of None \<Rightarrow> 0 | Some c \<Rightarrow> c);
         attention_stability = attention st;
         confidence = Math_pow_third
           (certainty * (if sensor_quality = 0 then 1 else sensor_quality) * attention_stability)
     in clamp_js confidence)"

text \<open>\<open>update\<close> returns the new estimator (its \<open>belief\<close> field is the corrected belief)
  and the copy of the belief handed to the caller.\<close>

definition update :: "Estimator \<Rightarrow> Observation \<Rightarrow> real \<Rightarrow> Estimator \<times> BeliefState" where
  "update est obs dt =
    (let predicted = predict est dt;
         corrected = correct predicted obs dt;
         corrected = corrected\<lparr>prediction_error := computePredictionError (est_target est) corrected\<rparr>;
         corrected = corrected\<lparr>confidence := computeConfidence corrected obs\<rparr>
     in (est\<lparr>est_belief := corrected\<rparr>, corrected))"

text \<open>A history of calls to the estimator's two public methods, the estimator after it and
  the beliefs that the calls of \<open>update\<close> returned.\<close>

datatype estimator_call = SetProtocol "BreathPattern option" | Update Observation real

fun estimator_after :: "Estimator \<Rightarrow> estimator_call list \<Rightarrow> Estimator" where
  "estimator_after est [] = est"
| "estimator_after est (SetProtocol p # cs) = estimator_after (setProtocol est p) cs"
| "estimator_after est (Update obs dt # cs) = estimator_after (fst (update est obs dt)) cs"

fun returned_beliefs :: "Estimator \<Rightarrow> estimator_call list \<Rightarrow> BeliefState list" where
  "returned_beliefs est [] = []"
| "returned_beliefs est (SetProtocol p # cs) = returned_beliefs (setProtocol est p) cs"
| "returned_beliefs est (Update obs dt # cs) =
     snd (update est obs dt) # returned_beliefs (fst (update est obs dt)) cs"

section \<open>The safety registry update of the settings store (registerSessionComplete)\<close>

text \<open>
  The part of \<open>registerSessionComplete\<close> that computes the registry pushed to the kernel and
  stored in the settings; the session history and the streak are not modelled. \<open>now\<close> is
  the reading of \<open>Date.now()\<close> in the lockout branch and \<open>kernelState\<close> the snapshot
  \<open>kernel.getState()\<close>. \<open>push\<close> appends and \<open>shift\<close> removes the first element.
\<close>

definition isSuccess :: "real \<Rightarrow> RuntimeState \<Rightarrow> bool" where
  "isSuccess durationSec kernelState =
    (durationSec > 45 \<and> prediction_error (belief kernelState) < 0.5)"

text \<open>\<open>registry[patternId] || {...}\<close>: the stored profile, or a fresh one.\<close>

definition profile_or_new :: "(string \<rightharpoonup> SafetyProfile) \<Rightarrow> string \<Rightarrow> SafetyProfile" where
  "profile_or_new registry pid =
    (case registry pid of
       Some r \<Rightarrow> r
     | None \<Rightarrow> \<lparr>patternId = pid, cummulative_stress_score = 0,
         last_incident_timestamp = 0, safety_lock_until = 0, resonance_history = []\<rparr>)"

definition registerSessionComplete ::
  "real \<Rightarrow> RuntimeState \<Rightarrow> (string \<rightharpoonup> SafetyProfile) \<Rightarrow> real \<Rightarrow> string \<Rightarrow> (string \<rightharpoonup> SafetyProfile)" where
  "registerSessionComplete now kernelState registry durationSec pid =
    (let record0 = profile_or_new registry pid;
         record1 =
           (if isSuccess durationSec kernelState
            then record0\<lparr>resonance_history := resonance_history record0 @ [1]\<rparr>
            else
              let r = record0\<lparr>resonance_history := resonance_history record0 @ [0],
                        cummulative_stress_score := cummulative_stress_score record0 + 1\<rparr>
              in if cummulative_stress_score r > 5
                 then r\<lparr>safety_lock_until := now + (24 * 60 * 60 * 1000),
                        cummulative_stress_score := 0\<rparr>
                 else r);
         record2 =
           (if length (resonance_history record1) > 5
            then record1\<lparr>resonance_history := tl (resonance_history record1)\<rparr>
            else record1)
     in registry(pid \<mapsto> record2))"

text \<open>One completed session as the arguments of one call: the clock reading, the kernel
  snapshot and the duration. \<open>complete_sessions\<close> is a run of calls for one pattern.\<close>

fun complete_sessions ::
  "(string \<rightharpoonup> SafetyProfile) \<Rightarrow> string \<Rightarrow> (real \<times> RuntimeState \<times> real) list \<Rightarrow> (string \<rightharpoonup> SafetyProfile)" where
  "complete_sessions registry pid [] = registry"
| "complete_sessions registry pid ((now, ks, dur) # rest) =
     complete_sessions (registerSessionComplete now ks registry dur pid) pid rest"

section \<open>Properties stated in the words of the specification\<close>

text \<open>A value of \<open>jsnum\<close> lies in the unit interval; NaN does not.\<close>

fun in_unit :: "jsnum \<Rightarrow> bool" where
  "in_unit (Num v) = (0 \<le> v \<and> v \<le> 1)"
| "in_unit NaN = False"

text \<open>The belief bounds of the specification: the three point estimates and the confidence
  lie in the unit interval and the prediction error is not negative.\<close>

definition belief_bounds :: "BeliefState \<Rightarrow> bool" where
  "belief_bounds b =
    (0 \<le> arousal b \<and> arousal b \<le> 1 \<and> 0 \<le> attention b \<and> attention b \<le> 1 \<and>
     0 \<le> rhythm_alignment b \<and> rhythm_alignment b \<le> 1 \<and>
     in_unit (confidence b) \<and> 0 \<le> prediction_error b)"

text \<open>The variances of a belief are not negative.\<close>

definition variances_nonneg :: "BeliefState \<Rightarrow> bool" where
  "variances_nonneg b =
    (0 \<le> arousal_variance b \<and> 0 \<le> attention_variance b \<and> 0 \<le> rhythm_variance b)"

text \<open>A call of \<open>update\<close> has a time step that is not negative.\<close>

fun dt_nonneg :: "estimator_call \<Rightarrow> bool" where
  "dt_nonneg (SetProtocol p) = True"
| "dt_nonneg (Update obs dt) = (0 \<le> dt)"

text \<open>The sensor confidence of an observation, when present, is not negative.\<close>

definition hr_confidence_nonneg :: "Observation \<Rightarrow> bool" where
  "hr_confidence_nonneg obs = (case hr_confidence obs of None \<Rightarrow> True | Some c \<Rightarrow> 0 \<le> c)"

fun call_ok :: "estimator_call \<Rightarrow> bool" where
  "call_ok (SetProtocol p) = True"
| "call_ok (Update obs dt) = (0 \<le> dt \<and> hr_confidence_nonneg obs)"

text \<open>The largest distance of a point of the unit interval from a target coordinate, and the
  bound on the prediction error that it gives.\<close>

definition max_err :: "real \<Rightarrow> real" where
  "max_err t = max t (1 - t)"

definition prediction_error_bound :: "TargetState \<Rightarrow> real" where
  "prediction_error_bound tg =
    sqrt (0.4 * (max_err (target_arousal tg)) ^ 2 + 0.3 * (max_err (target_attention tg)) ^ 2
          + 0.3 * (max_err (target_rhythm_alignment tg)) ^ 2)"

text \<open>The confidence as the specification words it: the clamped cube root of the product of
  one minus the average variance (capped at 1), the sensor quality (\<open>hr_confidence\<close> when
  present, 1 when absent) and the attention.\<close>

definition specified_confidence :: "BeliefState \<Rightarrow> Observation \<Rightarrow> real" where
  "specified_confidence st obs =
    clamp (root 3
      ((1 - min 1 ((arousal_variance st + attention_variance st + rhythm_variance st) / 3))
       * (case hr_confidence obs of None \<Rightarrow> 1 | Some c \<Rightarrow> c)
       * attention st))"

text \<open>The sensor quality that the code uses: 1 when \<open>hr_confidence\<close> is absent or 0.\<close>

definition used_sensor_quality :: "Observation \<Rightarrow> real" where
  "used_sensor_quality obs = (case hr_confidence obs of None \<Rightarrow> 1 | Some c \<Rightarrow> if c = 0 then 1 else c)"

text \<open>The outcome pushed onto the resonance history, and the most recent five entries of
  a history.\<close>

definition outcome :: "real \<Rightarrow> RuntimeState \<Rightarrow> real" where
  "outcome durationSec kernelState = (if isSuccess durationSec kernelState then 1 else 0)"

definition most_recent_5 :: "real list \<Rightarrow> real list" where
  "most_recent_5 h = drop (length h - 5) h"

section \<open>Concrete states\<close>

definition no_throw :: "nat \<Rightarrow> KernelEvent \<Rightarrow> RuntimeState \<Rightarrow> RuntimeState \<Rightarrow> bool" where
  "no_throw mw event before after = False"

definition never_throws :: "nat \<Rightarrow> RuntimeState \<Rightarrow> bool" where
  "never_throws cb st = False"

definition kernel0 :: Kernel where
  "kernel0 = \<lparr>state = createInitialState 0 0, eventLog = [], subscribers = [], middlewares = []\<rparr>"

definition locked_registry :: "string \<rightharpoonup> SafetyProfile" where
  "locked_registry = [''4-7-8'' \<mapsto> \<lparr>patternId = ''4-7-8'', cummulative_stress_score = 0,
     last_incident_timestamp = 0, safety_lock_until = 1020, resonance_history = []\<rparr>]"

definition locked_kernel :: Kernel where
  "locked_kernel = kernel_after (loadSafetyRegistry no_throw 10 10 10 10 kernel0 locked_registry)"

text \<open>A session of the pattern \<open>box\<close> loaded and started at time 1000.\<close>

definition running_kernel :: Kernel where
  "running_kernel =
    kernel_after (dispatch no_throw 1000 1000 1000
      (kernel_after (dispatch no_throw 1000 1000 1000 kernel0 (LOAD_PROTOCOL ''box'' 1000)))
      (START_SESSION 1000))"

text \<open>The session paused at time 2500, 1.5 seconds into its first phase.\<close>

definition paused_kernel :: Kernel where
  "paused_kernel = kernel_after (dispatch no_throw 2500 2500 2500 running_kernel (INTERRUPTION kind_pause 2500))"

definition quiet_observation :: Observation where
  "quiet_observation = \<lparr>timestamp = 4000, delta_time = 0, user_interaction = None,
     visibilty_state = visible, heart_rate = None, hr_confidence = None\<rparr>"

text \<open>An observation of a sensor with no signal (\<open>hr_confidence = 0\<close>, the value the camera
  hook reports when it is off), and one with a negative confidence.\<close>

definition no_signal_observation :: Observation where
  "no_signal_observation = quiet_observation\<lparr>heart_rate := Some 0, hr_confidence := Some 0\<rparr>"

definition negative_confidence_observation :: Observation where
  "negative_confidence_observation = quiet_observation\<lparr>hr_confidence := Some (- 1)\<rparr>"

text \<open>A kernel snapshot at the end of an adverse session (the prediction error is 0.6).\<close>

definition adverse_snapshot :: RuntimeState where
  "adverse_snapshot = (createInitialState 0 0)\<lparr>belief :=
     (belief (createInitialState 0 0))\<lparr>prediction_error := 0.6\<rparr>\<rparr>"

section \<open>The kernel: dispatch, guard and reducer\<close>

lemma trim_log:
  "(if length (xs @ [g]) > MAX_LOG_SIZE then tl (xs @ [g]) else xs @ [g]) =
   (if length xs \<ge> MAX_LOG_SIZE then tl xs else xs) @ [g]"
  by (cases xs) (auto simp: MAX_LOG_SIZE_def)

lemma dispatch_kernel_after:
  assumes "defaultSafetyGuard now1 now2 ev (state k) = Some g"
  shows "kernel_after (dispatch mw now1 now2 now3 k ev) =
    k\<lparr>state := computeDerivedFields now3 (reduce (state k) g),
      eventLog := (if length (eventLog k) \<ge> MAX_LOG_SIZE then tl (eventLog k) else eventLog k) @ [g]\<rparr>"
proof -
  have "kernel_after (dispatch mw now1 now2 now3 k ev) =
    k\<lparr>state := computeDerivedFields now3 (reduce (state k) g),
      eventLog := (if length (eventLog k @ [g]) > MAX_LOG_SIZE then tl (eventLog k @ [g]) else eventLog k @ [g])\<rparr>"
    using assms by (simp add: dispatch_def Let_def)
  then show ?thesis by (simp only: trim_log)
qed

lemma guard_total: "\<exists>g. defaultSafetyGuard now1 now2 ev st = Some g"
  by (cases ev) (auto simp: defaultSafetyGuard_def split: option.splits)

lemma guard_locked:
  assumes "safetyRegistry st pid = Some profile" and "safety_lock_until profile > now1"
  shows "defaultSafetyGuard now1 now2 (LOAD_PROTOCOL pid ts) st =
    Some (SAFETY_INTERDICTION 0.8 ''PATTERN_LOCKED'' now2)"
  using assms by (simp add: defaultSafetyGuard_def)

lemma derived_keeps:
  "status (computeDerivedFields now st) = status st"
  "pattern (computeDerivedFields now st) = pattern st"
  "phaseStartTime (computeDerivedFields now st) = phaseStartTime st"
  "sessionStartTime (computeDerivedFields now st) = sessionStartTime st"
  "safetyRegistry (computeDerivedFields now st) = safetyRegistry st"
  "lastUpdateTimestamp (computeDerivedFields now st) = lastUpdateTimestamp st"
  by (simp_all add: computeDerivedFields_def)

lemma locked_kernel_state:
  "state locked_kernel = (createInitialState 0 0)\<lparr>safetyRegistry := locked_registry, lastUpdateTimestamp := 10\<rparr>"
  by (simp add: locked_kernel_def loadSafetyRegistry_def dispatch_def defaultSafetyGuard_def Let_def
        computeDerivedFields_def kernel0_def createInitialState_def)

lemma running_kernel_state:
  "state running_kernel = (createInitialState 0 0)\<lparr>status := RUNNING, pattern := BREATHING_PATTERNS ''box'',
     phaseStartTime := 1000, phaseDuration := 4, sessionStartTime := 1000, lastUpdateTimestamp := 1000\<rparr>"
  by (simp add: running_kernel_def dispatch_def defaultSafetyGuard_def Let_def
        computeDerivedFields_def kernel0_def createInitialState_def BREATHING_PATTERNS_def timings_rec_def)

lemma paused_kernel_state:
  "state paused_kernel = (state running_kernel)\<lparr>status := PAUSED, lastUpdateTimestamp := 2500,
      sessionDuration := 3/2\<rparr>"
  by (simp add: paused_kernel_def dispatch_def defaultSafetyGuard_def Let_def
        computeDerivedFields_def running_kernel_state createInitialState_def)

text \<open>
  Claim C1 (lockout enforcement). When the registry of the current state maps the pattern id
  to a profile whose \<open>safety_lock_until\<close> is greater than the time the guard reads,
  dispatching \<open>LOAD_PROTOCOL\<close> for that pattern leaves \<open>pattern\<close> as it was, sets
  \<open>status\<close> to \<open>SAFETY_LOCK\<close>, and appends to the log exactly one event, the
  \<open>SAFETY_INTERDICTION\<close> with risk level 0.8 and action \<open>PATTERN_LOCKED\<close>; the committed
  state is the reduction of that interdiction, not of the \<open>LOAD_PROTOCOL\<close> event.
\<close>

theorem lockout_enforcement:
  assumes "safetyRegistry (state k) pid = Some profile"
    and "safety_lock_until profile > now1"
  shows "let k' = kernel_after (dispatch mw now1 now2 now3 k (LOAD_PROTOCOL pid ts)) in
      pattern (state k') = pattern (state k)
    \<and> status (state k') = SAFETY_LOCK
    \<and> eventLog k' =
        (if length (eventLog k) \<ge> MAX_LOG_SIZE then tl (eventLog k) else eventLog k)
          @ [SAFETY_INTERDICTION 0.8 ''PATTERN_LOCKED'' now2]
    \<and> last (eventLog k') = SAFETY_INTERDICTION 0.8 ''PATTERN_LOCKED'' now2
    \<and> state k' =
        computeDerivedFields now3 (reduce (state k) (SAFETY_INTERDICTION 0.8 ''PATTERN_LOCKED'' now2))"
  unfolding Let_def dispatch_kernel_after [OF guard_locked [OF assms]]
  by (simp add: derived_keeps)

theorem lockout_enforcement_witness:
  "safetyRegistry (state locked_kernel) ''4-7-8'' = Some (profile_or_new locked_registry ''4-7-8'')
   \<and> safety_lock_until (profile_or_new locked_registry ''4-7-8'') > 20
   \<and> pattern (state (kernel_after (dispatch no_throw 20 20 20 locked_kernel (LOAD_PROTOCOL ''4-7-8'' 20)))) = None
   \<and> status (state (kernel_after (dispatch no_throw 20 20 20 locked_kernel (LOAD_PROTOCOL ''4-7-8'' 20)))) = SAFETY_LOCK
   \<and> last (eventLog (kernel_after (dispatch no_throw 20 20 20 locked_kernel (LOAD_PROTOCOL ''4-7-8'' 20))))
       = SAFETY_INTERDICTION 0.8 ''PATTERN_LOCKED'' 20"
proof -
  have reg: "safetyRegistry (state locked_kernel) ''4-7-8'' = Some (profile_or_new locked_registry ''4-7-8'')"
    by (simp add: locked_kernel_state locked_registry_def profile_or_new_def)
  have lock: "safety_lock_until (profile_or_new locked_registry ''4-7-8'') > 20"
    by (simp add: locked_registry_def profile_or_new_def)
  have pat: "pattern (state locked_kernel) = None"
    by (simp add: locked_kernel_state createInitialState_def)
  show ?thesis
    using lockout_enforcement [OF reg lock, of no_throw 20 20 20] reg lock pat
    by (simp add: Let_def derived_keeps)
qed

text \<open>
  Claim C9. With a pattern bound, reducing \<open>START_SESSION\<close> sets the status to \<open>RUNNING\<close>
  and stamps \<open>sessionStartTime\<close> and \<open>phaseStartTime\<close> with the event's timestamp, whatever
  the status was. Dispatched from any status but \<open>SAFETY_LOCK\<close> (so also from \<open>RUNNING\<close> and
  \<open>PAUSED\<close>) the event passes the guard and restarts both clocks; from \<open>SAFETY_LOCK\<close> the
  guard replaces it by the interdiction \<open>REJECT_START\<close> and the clocks stay.
\<close>

theorem start_session_restarts_clocks:
  assumes "pattern (state k) = Some pat"
  shows "reduce (state k) (START_SESSION ts) =
       (state k)\<lparr>status := RUNNING, sessionStartTime := ts, phaseStartTime := ts, lastUpdateTimestamp := ts\<rparr>
   \<and> (status (state k) \<noteq> SAFETY_LOCK \<longrightarrow>
       (let k' = kernel_after (dispatch mw now1 now2 now3 k (START_SESSION ts)) in
          status (state k') = RUNNING \<and> sessionStartTime (state k') = ts
        \<and> phaseStartTime (state k') = ts \<and> last (eventLog k') = START_SESSION ts))
   \<and> (status (state k) = SAFETY_LOCK \<longrightarrow>
       (let k' = kernel_after (dispatch mw now1 now2 now3 k (START_SESSION ts)) in
          status (state k') = SAFETY_LOCK \<and> sessionStartTime (state k') = sessionStartTime (state k)
        \<and> phaseStartTime (state k') = phaseStartTime (state k)
        \<and> last (eventLog k') = SAFETY_INTERDICTION 1.0 ''REJECT_START'' now1))"
proof (intro conjI impI)
  show "reduce (state k) (START_SESSION ts) =
       (state k)\<lparr>status := RUNNING, sessionStartTime := ts, phaseStartTime := ts, lastUpdateTimestamp := ts\<rparr>"
    using assms by simp
next
  assume "status (state k) \<noteq> SAFETY_LOCK"
  then have g: "defaultSafetyGuard now1 now2 (START_SESSION ts) (state k) = Some (START_SESSION ts)"
    by (simp add: defaultSafetyGuard_def)
  show "let k' = kernel_after (dispatch mw now1 now2 now3 k (START_SESSION ts)) in
          status (state k') = RUNNING \<and> sessionStartTime (state k') = ts
        \<and> phaseStartTime (state k') = ts \<and> last (eventLog k') = START_SESSION ts"
    unfolding Let_def dispatch_kernel_after [OF g] using assms by (simp add: derived_keeps)
next
  assume "status (state k) = SAFETY_LOCK"
  then have g: "defaultSafetyGuard now1 now2 (START_SESSION ts) (state k) =
      Some (SAFETY_INTERDICTION 1.0 ''REJECT_START'' now1)"
    by (simp add: defaultSafetyGuard_def)
  show "let k' = kernel_after (dispatch mw now1 now2 now3 k (START_SESSION ts)) in
          status (state k') = SAFETY_LOCK \<and> sessionStartTime (state k') = sessionStartTime (state k)
        \<and> phaseStartTime (state k') = phaseStartTime (state k)
        \<and> last (eventLog k') = SAFETY_INTERDICTION 1.0 ''REJECT_START'' now1"
    unfolding Let_def dispatch_kernel_after [OF g] by (simp add: derived_keeps)
qed

theorem start_session_restarts_clocks_witness:
  "pattern (state paused_kernel) = BREATHING_PATTERNS ''box''
   \<and> status (state paused_kernel) = PAUSED
   \<and> sessionStartTime (state paused_kernel) = 1000
   \<and> status (state (kernel_after (dispatch no_throw 9000 9000 9000 paused_kernel (START_SESSION 9000)))) = RUNNING
   \<and> sessionStartTime (state (kernel_after (dispatch no_throw 9000 9000 9000 paused_kernel (START_SESSION 9000)))) = 9000
   \<and> phaseStartTime (state (kernel_after (dispatch no_throw 9000 9000 9000 paused_kernel (START_SESSION 9000)))) = 9000"
proof -
  have box: "BREATHING_PATTERNS ''box'' = Some (the (BREATHING_PATTERNS ''box''))"
    by (simp add: BREATHING_PATTERNS_def)
  have pat: "pattern (state paused_kernel) = Some (the (BREATHING_PATTERNS ''box''))"
    using box by (simp add: paused_kernel_state running_kernel_state)
  have st: "status (state paused_kernel) = PAUSED" "sessionStartTime (state paused_kernel) = 1000"
    by (simp_all add: paused_kernel_state running_kernel_state)
  show ?thesis
    using start_session_restarts_clocks [OF pat, of 9000 no_throw 9000 9000 9000] pat st box
    by (simp add: Let_def)
qed

text \<open>
  Claim C5, as the code has it. After every dispatch, \<open>phaseElapsed\<close> is the clock reading
  relative to \<open>phaseStartTime\<close> (in seconds, not below 0) when the status is \<open>RUNNING\<close> and 0
  otherwise; \<open>sessionDuration\<close> is the clock reading relative to \<open>sessionStartTime\<close> whenever
  \<open>sessionStartTime\<close> is positive, whatever the status, and 0 otherwise. The claim as stated
  (both fields are 0 whenever the status is not \<open>RUNNING\<close>) fails for \<open>sessionDuration\<close>: a
  session started at time 1000 and paused at time 2500 has \<open>sessionDuration = 1.5\<close>.
\<close>

theorem derived_fields:
  "let s' = state (kernel_after (dispatch mw now1 now2 now3 k ev)) in
     phaseElapsed s' = (if status s' = RUNNING then max 0 ((now3 - phaseStartTime s') / 1000) else 0)
   \<and> (status s' \<noteq> RUNNING \<longrightarrow> phaseElapsed s' = 0)
   \<and> sessionDuration s' =
       (if sessionStartTime s' > 0 then max 0 ((now3 - sessionStartTime s') / 1000) else 0)"
proof -
  obtain g where g: "defaultSafetyGuard now1 now2 ev (state k) = Some g"
    using guard_total by blast
  show ?thesis
    unfolding Let_def dispatch_kernel_after [OF g]
    by (simp add: computeDerivedFields_def)
qed

theorem derived_fields_witness:
  "status (state (kernel_after (dispatch no_throw 3000 3000 3000 running_kernel (HALT ''cleanup'' 3000)))) \<noteq> RUNNING
   \<and> phaseElapsed (state (kernel_after (dispatch no_throw 3000 3000 3000 running_kernel (HALT ''cleanup'' 3000)))) = 0
   \<and> sessionDuration (state (kernel_after (dispatch no_throw 3000 3000 3000 running_kernel (HALT ''cleanup'' 3000)))) = 2"
proof -
  have g: "defaultSafetyGuard 3000 3000 (HALT ''cleanup'' 3000) (state running_kernel) = Some (HALT ''cleanup'' 3000)"
    by (simp add: defaultSafetyGuard_def)
  have st: "status (state (kernel_after (dispatch no_throw 3000 3000 3000 running_kernel (HALT ''cleanup'' 3000)))) = HALTED"
      "sessionStartTime (state (kernel_after (dispatch no_throw 3000 3000 3000 running_kernel (HALT ''cleanup'' 3000)))) = 1000"
    unfolding dispatch_kernel_after [OF g] by (simp_all add: derived_keeps running_kernel_state)
  show ?thesis
    using derived_fields [of no_throw 3000 3000 3000 running_kernel "HALT ''cleanup'' 3000"] st
    by (simp add: Let_def)
qed

theorem derived_fields_counterexample:
  "status (state (kernel_after (dispatch no_throw 2500 2500 2500 running_kernel (INTERRUPTION kind_pause 2500)))) = PAUSED
   \<and> sessionDuration (state (kernel_after (dispatch no_throw 2500 2500 2500 running_kernel (INTERRUPTION kind_pause 2500)))) = 3 / 2"
  using paused_kernel_state by (simp add: paused_kernel_def running_kernel_state)

lemma resume_after_pause:
  assumes "status s = RUNNING"
  shows "status (reduce (reduce s (INTERRUPTION kd t_pause)) (RESUME t_resume)) = RUNNING
    \<and> phaseStartTime (reduce (reduce s (INTERRUPTION kd t_pause)) (RESUME t_resume)) =
        phaseStartTime s + (t_resume - t_pause)
    \<and> t_resume - phaseStartTime (reduce (reduce s (INTERRUPTION kd t_pause)) (RESUME t_resume)) =
        t_pause - phaseStartTime s"
  using assms by (simp add: Let_def)

text \<open>
  Claim C2. A \<open>RESUME\<close> that directly follows the \<open>INTERRUPTION\<close> shifts \<open>phaseStartTime\<close> by
  the length of the pause (lemma \<open>resume_after_pause\<close>). The reducer takes the time of the
  pause from \<open>lastUpdateTimestamp\<close>, which every event reduced while paused overwrites: the
  theorem runs the session paused at time 2500 (1.5 seconds into its phase), a \<open>TICK\<close> at time
  4000 and the \<open>RESUME\<close> at time 7500. The phase start moves from 1000 to 4500, not to 6000,
  and the phase-elapsed time right after the resume is 3 seconds, not 1.5.
\<close>

theorem resume_after_tick_while_paused:
  "status (state paused_kernel) = PAUSED
   \<and> phaseStartTime (state paused_kernel) = 1000
   \<and> lastUpdateTimestamp (state paused_kernel) = 2500
   \<and> status (state (kernel_after (dispatch no_throw 4000 4000 4000 paused_kernel (TICK 0 quiet_observation 4000)))) = PAUSED
   \<and> phaseStartTime (state (kernel_after (dispatch no_throw 7500 7500 7500
        (kernel_after (dispatch no_throw 4000 4000 4000 paused_kernel (TICK 0 quiet_observation 4000)))
        (RESUME 7500)))) = 4500
   \<and> phaseElapsed (state (kernel_after (dispatch no_throw 7500 7500 7500
        (kernel_after (dispatch no_throw 4000 4000 4000 paused_kernel (TICK 0 quiet_observation 4000)))
        (RESUME 7500)))) = 3"
proof -
  have g1: "defaultSafetyGuard 4000 4000 (TICK 0 quiet_observation 4000) (state paused_kernel)
      = Some (TICK 0 quiet_observation 4000)"
    by (simp add: defaultSafetyGuard_def)
  have g2: "defaultSafetyGuard 7500 7500 (RESUME 7500) st = Some (RESUME 7500)" for st
    by (simp add: defaultSafetyGuard_def)
  show ?thesis
    unfolding dispatch_kernel_after [OF g2] dispatch_kernel_after [OF g1]
    by (simp add: paused_kernel_state running_kernel_state computeDerivedFields_def Let_def)
qed

text \<open>
  Claim C10. \<open>subscribe\<close> calls the callback exactly once, with the current state, and
  leaves the state as it is; when the callback does not throw, it returns a closure that,
  applied to any later kernel, removes the callback from the subscriber set and nothing else,
  so that neither \<open>notify\<close> nor a dispatch from the resulting kernel calls the callback.
\<close>

theorem subscribe_calls_once:
  "sub_calls (subscribe cb_throws k cb) = [(cb, state k)]
   \<and> state (sub_kernel (subscribe cb_throws k cb)) = state k
   \<and> cb \<in> set (subscribers (sub_kernel (subscribe cb_throws k cb)))
   \<and> (\<not> cb_throws cb (state k) \<longrightarrow>
       (case sub_return (subscribe cb_throws k cb) of
          None \<Rightarrow> False
        | Some unsubscribe \<Rightarrow>
            set (subscribers (unsubscribe k2)) = set (subscribers k2) - {cb}
          \<and> state (unsubscribe k2) = state k2
          \<and> cb \<notin> fst ` set (notify (unsubscribe k2))
          \<and> cb \<notin> fst ` set (notified (dispatch mw now1 now2 now3 (unsubscribe k2) ev))))"
proof -
  obtain g where g: "defaultSafetyGuard now1 now2 ev (state k2) = Some g"
    using guard_total by blast
  have "cb \<notin> fst ` set (notified (dispatch mw now1 now2 now3
          (k2\<lparr>subscribers := removeAll cb (subscribers k2)\<rparr>) ev))"
    using g by (auto simp: dispatch_def Let_def notify_def)
  then show ?thesis
    by (auto simp: subscribe_def Let_def notify_def)
qed

theorem subscribe_calls_once_witness:
  "\<not> never_throws 7 (state kernel0)
   \<and> sub_calls (subscribe never_throws kernel0 7) = [(7, state kernel0)]
   \<and> (case sub_return (subscribe never_throws kernel0 7) of
          None \<Rightarrow> False
        | Some unsubscribe \<Rightarrow>
            subscribers (unsubscribe (sub_kernel (subscribe never_throws kernel0 7))) = []
          \<and> notified (dispatch no_throw 5 5 5 (unsubscribe (sub_kernel (subscribe never_throws kernel0 7)))
               (BOOT 5)) = [])"
proof -
  have nt: "\<not> never_throws 7 (state kernel0)" by (simp add: never_throws_def)
  show ?thesis
    using subscribe_calls_once [of never_throws kernel0 7 "sub_kernel (subscribe never_throws kernel0 7)"
        no_throw 5 5 5 "BOOT 5"] nt
    by (simp add: subscribe_def Let_def never_throws_def kernel0_def dispatch_def
        defaultSafetyGuard_def notify_def no_throw_def)
qed

section \<open>The estimator: bounds, confidence and prediction error\<close>

lemma clamp_bounds: "0 \<le> clamp v" "clamp v \<le> 1"
  by (simp_all add: clamp_def)

lemma correct_point_estimates:
  "arousal (correct p obs dt) = clamp (arousal (correct_attention p (correct_arousal p obs) obs dt))"
  "attention (correct p obs dt) = clamp (attention (correct_attention p (correct_arousal p obs) obs dt))"
  "rhythm_alignment (correct p obs dt) = clamp (rhythm_alignment (correct_attention p (correct_arousal p obs) obs dt))"
  by (simp_all add: correct_def Let_def)

lemma update_fields:
  "arousal (snd (update est obs dt)) = arousal (correct (predict est dt) obs dt)"
  "attention (snd (update est obs dt)) = attention (correct (predict est dt) obs dt)"
  "rhythm_alignment (snd (update est obs dt)) = rhythm_alignment (correct (predict est dt) obs dt)"
  "arousal_variance (snd (update est obs dt)) = arousal_variance (correct (predict est dt) obs dt)"
  "attention_variance (snd (update est obs dt)) = attention_variance (correct (predict est dt) obs dt)"
  "rhythm_variance (snd (update est obs dt)) = rhythm_variance (correct (predict est dt) obs dt)"
  "prediction_error (snd (update est obs dt)) =
     computePredictionError (est_target est) (correct (predict est dt) obs dt)"
  "confidence (snd (update est obs dt)) =
     computeConfidence ((correct (predict est dt) obs dt)
        \<lparr>prediction_error := computePredictionError (est_target est) (correct (predict est dt) obs dt)\<rparr>) obs"
  "est_belief (fst (update est obs dt)) = snd (update est obs dt)"
  "est_target (fst (update est obs dt)) = est_target est"
  by (simp_all add: update_def Let_def)

lemma prediction_error_nonneg: "0 \<le> computePredictionError tg st"
  by (simp add: computePredictionError_def Let_def)

lemma confidence_unfold:
  "computeConfidence st obs = clamp_js (Math_pow_third
      ((1 - min 1 ((arousal_variance st + attention_variance st + rhythm_variance st) / 3))
       * used_sensor_quality obs * attention st))"
  by (cases "hr_confidence obs") (simp_all add: computeConfidence_def Let_def used_sensor_quality_def)

lemma confidence_value:
  assumes "hr_confidence_nonneg obs" and "0 \<le> attention st"
  shows "computeConfidence st obs =
    Num (clamp (root 3
      ((1 - min 1 ((arousal_variance st + attention_variance st + rhythm_variance st) / 3))
       * used_sensor_quality obs * attention st)))"
proof -
  have c: "0 \<le> 1 - min 1 ((arousal_variance st + attention_variance st + rhythm_variance st) / 3)"
    by simp
  have q: "0 \<le> used_sensor_quality obs"
    using assms(1) by (simp add: used_sensor_quality_def hr_confidence_nonneg_def split: option.splits)
  have "0 \<le> (1 - min 1 ((arousal_variance st + attention_variance st + rhythm_variance st) / 3))
       * used_sensor_quality obs * attention st"
    using c q assms(2) by (intro mult_nonneg_nonneg)
  then show ?thesis
    unfolding confidence_unfold Math_pow_third_def by (simp add: not_less [symmetric])
qed

lemma update_bounds:
  assumes "hr_confidence_nonneg obs"
  shows "belief_bounds (snd (update est obs dt))"
proof -
  let ?c = "(correct (predict est dt) obs dt)
        \<lparr>prediction_error := computePredictionError (est_target est) (correct (predict est dt) obs dt)\<rparr>"
  have "0 \<le> attention ?c" by (simp add: correct_point_estimates clamp_bounds)
  from confidence_value [OF assms this]
  have "in_unit (computeConfidence ?c obs)" by (simp add: clamp_bounds)
  then show ?thesis
    by (simp add: belief_bounds_def update_fields correct_point_estimates clamp_bounds
        prediction_error_nonneg)
qed

lemma returned_beliefs_bounds:
  "list_all call_ok cs \<Longrightarrow> list_all belief_bounds (returned_beliefs est cs)"
proof (induction cs arbitrary: est)
  case Nil
  then show ?case by simp
next
  case (Cons c cs)
  then show ?case by (cases c) (simp_all add: update_bounds)
qed

lemma stored_belief_bounds:
  "list_all call_ok cs \<Longrightarrow> belief_bounds (est_belief est) \<Longrightarrow>
   belief_bounds (est_belief (estimator_after est cs))"
proof (induction cs arbitrary: est)
  case Nil
  then show ?case by simp
next
  case (Cons c cs)
  show ?case
  proof (cases c)
    case (SetProtocol p)
    then show ?thesis using Cons by (simp add: setProtocol_def split: option.splits)
  next
    case (Update obs dt)
    then show ?thesis using Cons by (simp add: update_fields update_bounds)
  qed
qed

lemma new_estimator_bounds: "belief_bounds (est_belief AdaptiveStateEstimator_new)"
  by (simp add: AdaptiveStateEstimator_new_def belief_bounds_def)

lemma belief_bounds_preserved:
  assumes "list_all call_ok cs"
  shows "list_all belief_bounds (returned_beliefs AdaptiveStateEstimator_new cs)
    \<and> belief_bounds (est_belief (estimator_after AdaptiveStateEstimator_new cs))"
  using assms returned_beliefs_bounds stored_belief_bounds new_estimator_bounds by blast

lemma belief_bounds_preserved_example:
  "list_all call_ok [SetProtocol (BREATHING_PATTERNS ''box''), Update no_signal_observation 0]
   \<and> list_all belief_bounds (returned_beliefs AdaptiveStateEstimator_new
        [SetProtocol (BREATHING_PATTERNS ''box''), Update no_signal_observation 0])"
proof -
  have ok: "list_all call_ok [SetProtocol (BREATHING_PATTERNS ''box''), Update no_signal_observation 0]"
    by (simp add: hr_confidence_nonneg_def no_signal_observation_def quiet_observation_def)
  show ?thesis
    using belief_bounds_preserved [OF ok] ok by simp
qed


lemma corrected_at_start:
  "attention (correct (predict AdaptiveStateEstimator_new 0) no_signal_observation 0) = 1 / 2"
  "arousal_variance (correct (predict AdaptiveStateEstimator_new 0) no_signal_observation 0) = 1 / 5"
  "attention_variance (correct (predict AdaptiveStateEstimator_new 0) no_signal_observation 0) = 1 / 5"
  "rhythm_variance (correct (predict AdaptiveStateEstimator_new 0) no_signal_observation 0) = 3 / 10"
  by (simp_all add: correct_def correct_attention_def correct_arousal_def predict_def Let_def
      AdaptiveStateEstimator_new_def clamp_def PROCESS_NOISE_def PROTOCOL_TARGETS_def
      no_signal_observation_def quiet_observation_def)

text \<open>
  Claim C6, as the code has it. For an observation whose \<open>hr_confidence\<close> is absent or not
  negative and a belief whose attention is not negative (as that of every corrected belief
  is), the confidence is the cube root, clamped to the unit interval, of the product of one
  minus the average variance (capped at 1), the sensor quality and the attention, where the
  sensor quality is \<open>hr_confidence\<close> when it is present and not 0, and 1 when it is absent
  or 0. The claim as stated fails: with \<open>hr_confidence = 0\<close> the factor used is 1, not 0.
\<close>

theorem confidence_geometric_mean:
  assumes "hr_confidence_nonneg obs" and "0 \<le> attention st"
  shows "computeConfidence st obs =
      Num (clamp (root 3
        ((1 - min 1 ((arousal_variance st + attention_variance st + rhythm_variance st) / 3))
         * used_sensor_quality obs * attention st)))
    \<and> confidence (snd (update est obs dt)) =
      Num (clamp (root 3
        ((1 - min 1 ((arousal_variance (snd (update est obs dt))
                      + attention_variance (snd (update est obs dt))
                      + rhythm_variance (snd (update est obs dt))) / 3))
         * used_sensor_quality obs * attention (snd (update est obs dt)))))
    \<and> used_sensor_quality obs =
        (case hr_confidence obs of None \<Rightarrow> 1 | Some c \<Rightarrow> if c = 0 then 1 else c)"
proof -
  let ?c = "(correct (predict est dt) obs dt)
        \<lparr>prediction_error := computePredictionError (est_target est) (correct (predict est dt) obs dt)\<rparr>"
  have "0 \<le> attention ?c" by (simp add: correct_point_estimates clamp_bounds)
  from confidence_value [OF assms(1) this] confidence_value [OF assms]
  show ?thesis by (simp add: update_fields used_sensor_quality_def)
qed

theorem confidence_geometric_mean_witness:
  "hr_confidence_nonneg no_signal_observation
   \<and> 0 \<le> attention (correct (predict AdaptiveStateEstimator_new 0) no_signal_observation 0)
   \<and> computeConfidence (correct (predict AdaptiveStateEstimator_new 0) no_signal_observation 0)
       no_signal_observation = Num (clamp (root 3 (23 / 60)))"
proof -
  have ok: "hr_confidence_nonneg no_signal_observation"
    by (simp add: hr_confidence_nonneg_def no_signal_observation_def)
  have att: "0 \<le> attention (correct (predict AdaptiveStateEstimator_new 0) no_signal_observation 0)"
    by (simp add: corrected_at_start)
  have u: "used_sensor_quality no_signal_observation = 1"
    by (simp add: used_sensor_quality_def no_signal_observation_def)
  show ?thesis
    using confidence_geometric_mean [OF ok att] ok att
    by (simp add: corrected_at_start u)
qed

theorem confidence_counterexample:
  "specified_confidence (correct (predict AdaptiveStateEstimator_new 0) no_signal_observation 0)
       no_signal_observation = 0
   \<and> computeConfidence (correct (predict AdaptiveStateEstimator_new 0) no_signal_observation 0)
       no_signal_observation = Num (root 3 (23 / 60))
   \<and> root 3 (23 / 60) \<noteq> 0
   \<and> computeConfidence (correct (predict AdaptiveStateEstimator_new 0) no_signal_observation 0)
       negative_confidence_observation = NaN"
proof -
  have r0: "0 < root 3 (23 / 60 :: real)" by simp
  have "root 3 (23 / 60 :: real) \<le> root 3 1"
    by (subst real_root_le_iff) simp_all
  then have r1: "root 3 (23 / 60 :: real) \<le> 1" by simp
  have u: "used_sensor_quality no_signal_observation = 1"
       "used_sensor_quality negative_confidence_observation = - 1"
    by (simp_all add: used_sensor_quality_def no_signal_observation_def
        negative_confidence_observation_def quiet_observation_def)
  have h: "hr_confidence no_signal_observation = Some 0"
    by (simp add: no_signal_observation_def)
  show ?thesis
    using r0 r1
    by (simp add: confidence_unfold corrected_at_start u specified_confidence_def h
        Math_pow_third_def clamp_def)
qed

lemma err_le_max_err:
  assumes "0 \<le> x" and "x \<le> 1"
  shows "(x - t) ^ 2 \<le> (max_err t) ^ 2"
proof -
  have "\<bar>x - t\<bar> \<le> \<bar>max_err t\<bar>"
    using assms by (simp add: max_err_def abs_if max_def)
  then show ?thesis by (simp only: abs_le_square_iff)
qed

lemma prediction_error_le_bound:
  assumes "0 \<le> arousal st" "arousal st \<le> 1" "0 \<le> attention st" "attention st \<le> 1"
    "0 \<le> rhythm_alignment st" "rhythm_alignment st \<le> 1"
  shows "computePredictionError tg st \<le> prediction_error_bound tg"
proof -
  have "0.4 * (arousal st - target_arousal tg) ^ 2 + 0.3 * (attention st - target_attention tg) ^ 2
        + 0.3 * (rhythm_alignment st - target_rhythm_alignment tg) ^ 2
      \<le> 0.4 * (max_err (target_arousal tg)) ^ 2 + 0.3 * (max_err (target_attention tg)) ^ 2
        + 0.3 * (max_err (target_rhythm_alignment tg)) ^ 2"
    using err_le_max_err [OF assms(1,2), of "target_arousal tg"]
      err_le_max_err [OF assms(3,4), of "target_attention tg"]
      err_le_max_err [OF assms(5,6), of "target_rhythm_alignment tg"]
    by simp
  then show ?thesis
    by (simp add: computePredictionError_def prediction_error_bound_def Let_def)
qed

lemma bound_below_threshold: "prediction_error_bound (PROTOCOL_TARGETS key) < 0.95"
proof -
  have "0.4 * (max_err (target_arousal (PROTOCOL_TARGETS key))) ^ 2
        + 0.3 * (max_err (target_attention (PROTOCOL_TARGETS key))) ^ 2
        + 0.3 * (max_err (target_rhythm_alignment (PROTOCOL_TARGETS key))) ^ 2 < (0.95 :: real) ^ 2"
    by (cases key) (simp_all add: PROTOCOL_TARGETS_def max_err_def power2_eq_square)
  then show ?thesis
    unfolding prediction_error_bound_def by (intro real_less_lsqrt) simp_all
qed

lemma target_from_table:
  "\<exists>key. est_target est = PROTOCOL_TARGETS key \<Longrightarrow>
   \<exists>key. est_target (estimator_after est cs) = PROTOCOL_TARGETS key"
proof (induction cs arbitrary: est)
  case Nil
  then show ?case by simp
next
  case (Cons c cs)
  show ?case
  proof (cases c)
    case (SetProtocol p)
    have "\<exists>key. est_target (setProtocol est p) = PROTOCOL_TARGETS key"
      by (auto simp: setProtocol_def Let_def split: option.splits)
    then show ?thesis using Cons.IH SetProtocol by simp
  next
    case (Update obs dt)
    then show ?thesis using Cons by (simp add: update_fields)
  qed
qed

lemma variances_kept:
  "list_all dt_nonneg cs \<Longrightarrow> variances_nonneg (est_belief est) \<Longrightarrow>
   variances_nonneg (est_belief (estimator_after est cs))"
proof (induction cs arbitrary: est)
  case Nil
  then show ?case by simp
next
  case (Cons c cs)
  show ?case
  proof (cases c)
    case (SetProtocol p)
    then show ?thesis using Cons by (simp add: setProtocol_def split: option.splits)
  next
    case (Update obs dt)
    have "variances_nonneg (snd (update est obs dt))" if "0 \<le> dt"
      using that Cons.prems(2)
      by (auto simp: variances_nonneg_def update_fields correct_def correct_attention_def
          correct_arousal_def predict_def Let_def PROCESS_NOISE_def MEASUREMENT_NOISE_HR_def
          MEASUREMENT_NOISE_CONTEXT_def divide_simps split: option.splits)
    then show ?thesis using Cons Update by (simp add: update_fields)
  qed
qed

lemma new_estimator_target: "\<exists>key. est_target AdaptiveStateEstimator_new = PROTOCOL_TARGETS key"
  by (auto simp: AdaptiveStateEstimator_new_def)

lemma denominators_positive:
  assumes "list_all dt_nonneg cs" and "0 \<le> dt"
  shows "0 < arousal_variance (predict (estimator_after AdaptiveStateEstimator_new cs) dt)
            + MEASUREMENT_NOISE_HR"
    and "0 < attention_variance (predict (estimator_after AdaptiveStateEstimator_new cs) dt)
            + MEASUREMENT_NOISE_CONTEXT"
proof -
  have "variances_nonneg (est_belief AdaptiveStateEstimator_new)"
    by (simp add: variances_nonneg_def AdaptiveStateEstimator_new_def)
  from variances_kept [OF assms(1) this]
  have "variances_nonneg (est_belief (estimator_after AdaptiveStateEstimator_new cs))" .
  then have "0 \<le> arousal_variance (predict (estimator_after AdaptiveStateEstimator_new cs) dt)"
    "0 \<le> attention_variance (predict (estimator_after AdaptiveStateEstimator_new cs) dt)"
    using assms(2) by (simp_all add: variances_nonneg_def predict_def Let_def PROCESS_NOISE_def)
  then show "0 < arousal_variance (predict (estimator_after AdaptiveStateEstimator_new cs) dt)
            + MEASUREMENT_NOISE_HR"
    and "0 < attention_variance (predict (estimator_after AdaptiveStateEstimator_new cs) dt)
            + MEASUREMENT_NOISE_CONTEXT"
    by (simp_all add: MEASUREMENT_NOISE_HR_def MEASUREMENT_NOISE_CONTEXT_def)
qed

text \<open>
  Claim C8. After any history of estimator calls with time steps that are not negative, the
  prediction error of the belief that \<open>update\<close> returns is at most the bound
  \<open>sqrt (0.4 * max_err_arousal\<^sup>2 + 0.3 * max_err_attention\<^sup>2 + 0.3 * max_err_rhythm\<^sup>2)\<close> of
  the estimator's target, the bound of each of the four targets is below 0.95, and the guard
  passes the \<open>BELIEF_UPDATE\<close> of that belief unchanged in every state. A crafted
  \<open>BELIEF_UPDATE\<close> with prediction error 0.96 in a session longer than 10 seconds is replaced
  by the interdiction \<open>EMERGENCY_HALT\<close>. Time steps that are not negative keep the variances
  from becoming negative, so every division of the source has a positive denominator (lemma
  \<open>denominators_positive\<close>).
\<close>

theorem emergency_halt_unreachable:
  assumes "list_all dt_nonneg cs" and "0 \<le> dt"
  shows "prediction_error (snd (update (estimator_after AdaptiveStateEstimator_new cs) obs dt))
        \<le> prediction_error_bound (est_target (estimator_after AdaptiveStateEstimator_new cs))
    \<and> prediction_error_bound (est_target (estimator_after AdaptiveStateEstimator_new cs)) < 0.95
    \<and> prediction_error_bound (PROTOCOL_TARGETS key) < 0.95
    \<and> prediction_error (snd (update (estimator_after AdaptiveStateEstimator_new cs) obs dt)) < 0.95
    \<and> defaultSafetyGuard now1 now2
         (BELIEF_UPDATE (snd (update (estimator_after AdaptiveStateEstimator_new cs) obs dt)) ts) st
        = Some (BELIEF_UPDATE (snd (update (estimator_after AdaptiveStateEstimator_new cs) obs dt)) ts)
    \<and> defaultSafetyGuard now1 now2
         (BELIEF_UPDATE (b\<lparr>prediction_error := 0.96\<rparr>) ts) (st\<lparr>sessionDuration := 11\<rparr>)
        = Some (SAFETY_INTERDICTION 0.95 ''EMERGENCY_HALT'' now1)"
proof -
  let ?est = "estimator_after AdaptiveStateEstimator_new cs"
  let ?b = "snd (update ?est obs dt)"
  obtain k where k: "est_target ?est = PROTOCOL_TARGETS k"
    using target_from_table [OF new_estimator_target] by blast
  have le: "prediction_error ?b \<le> prediction_error_bound (est_target ?est)"
    by (simp add: update_fields prediction_error_le_bound correct_point_estimates clamp_bounds)
  have lt: "prediction_error_bound (est_target ?est) < 0.95"
    unfolding k by (rule bound_below_threshold)
  from le lt have pe: "prediction_error ?b < 0.95" by simp
  then have "\<not> prediction_error ?b > 0.95" by simp
  then have g: "defaultSafetyGuard now1 now2 (BELIEF_UPDATE ?b ts) st = Some (BELIEF_UPDATE ?b ts)"
    by (simp add: defaultSafetyGuard_def)
  have c: "defaultSafetyGuard now1 now2
         (BELIEF_UPDATE (b\<lparr>prediction_error := 0.96\<rparr>) ts) (st\<lparr>sessionDuration := 11\<rparr>)
        = Some (SAFETY_INTERDICTION 0.95 ''EMERGENCY_HALT'' now1)"
    by (simp add: defaultSafetyGuard_def)
  show ?thesis
    using le lt pe g c bound_below_threshold by blast
qed

theorem emergency_halt_unreachable_witness:
  "list_all dt_nonneg [SetProtocol (BREATHING_PATTERNS ''4-7-8''), Update quiet_observation (1 / 10)]
   \<and> (0 :: real) \<le> 1 / 10
   \<and> prediction_error (snd (update (estimator_after AdaptiveStateEstimator_new
        [SetProtocol (BREATHING_PATTERNS ''4-7-8''), Update quiet_observation (1 / 10)])
        no_signal_observation (1 / 10))) < 0.95
   \<and> est_target (estimator_after AdaptiveStateEstimator_new
        [SetProtocol (BREATHING_PATTERNS ''4-7-8''), Update quiet_observation (1 / 10)])
      = PROTOCOL_TARGETS parasympathetic"
proof -
  have ok: "list_all dt_nonneg [SetProtocol (BREATHING_PATTERNS ''4-7-8''), Update quiet_observation (1 / 10)]"
    by simp
  have dt: "(0 :: real) \<le> 1 / 10" by simp
  have tg: "est_target (estimator_after AdaptiveStateEstimator_new
        [SetProtocol (BREATHING_PATTERNS ''4-7-8''), Update quiet_observation (1 / 10)])
      = PROTOCOL_TARGETS parasympathetic"
    by (simp add: update_fields setProtocol_def BREATHING_PATTERNS_def PATTERN_TO_TARGET_def Let_def)
  show ?thesis
    using emergency_halt_unreachable [OF ok dt, of no_signal_observation] ok tg
    by simp
qed

section \<open>The safety registry: circuit breaker and sliding window\<close>

lemma register_profile:
  "profile_or_new (registerSessionComplete now ks registry dur pid) pid =
    (let old = profile_or_new registry pid;
         h = resonance_history old @ [outcome dur ks];
         trip = (\<not> isSuccess dur ks \<and> cummulative_stress_score old + 1 > 5)
     in old\<lparr>resonance_history := (if length h > 5 then tl h else h),
          cummulative_stress_score :=
            (if isSuccess dur ks then cummulative_stress_score old
             else if trip then 0 else cummulative_stress_score old + 1),
          safety_lock_until := (if trip then now + 86400000 else safety_lock_until old)\<rparr>)"
  by (simp add: registerSessionComplete_def profile_or_new_def Let_def outcome_def)

lemma register_fields:
  "resonance_history (profile_or_new (registerSessionComplete now ks registry dur pid) pid) =
     (let h = resonance_history (profile_or_new registry pid) @ [outcome dur ks]
      in if length h > 5 then tl h else h)"
  "cummulative_stress_score (profile_or_new (registerSessionComplete now ks registry dur pid) pid) =
     (if isSuccess dur ks then cummulative_stress_score (profile_or_new registry pid)
      else if cummulative_stress_score (profile_or_new registry pid) + 1 > 5 then 0
      else cummulative_stress_score (profile_or_new registry pid) + 1)"
  "safety_lock_until (profile_or_new (registerSessionComplete now ks registry dur pid) pid) =
     (if \<not> isSuccess dur ks \<and> cummulative_stress_score (profile_or_new registry pid) + 1 > 5
      then now + 86400000 else safety_lock_until (profile_or_new registry pid))"
  by (simp_all add: register_profile Let_def)

lemma fresh_profile:
  "registry pid = None \<Longrightarrow> cummulative_stress_score (profile_or_new registry pid) = 0"
  "registry pid = None \<Longrightarrow> safety_lock_until (profile_or_new registry pid) = 0"
  "registry pid = None \<Longrightarrow> resonance_history (profile_or_new registry pid) = []"
  by (simp_all add: profile_or_new_def)

lemma adverse_snapshot_fails: "\<not> isSuccess dur adverse_snapshot"
  by (simp add: isSuccess_def adverse_snapshot_def createInitialState_def)

lemma trim_most_recent:
  assumes "length h \<le> 6"
  shows "(if length h > 5 then tl h else h) = most_recent_5 h"
proof (cases "length h > 5")
  case True
  with assms have "length h - 5 = Suc 0" by simp
  then show ?thesis using True by (simp add: most_recent_5_def drop_Suc)
next
  case False
  then show ?thesis by (simp add: most_recent_5_def)
qed

text \<open>
  Claim C3 (circuit breaker). A completed session is a success exactly when it lasted more
  than 45 seconds and the final prediction error is below 0.5. The profile after the update
  has the outcome (1 on success, 0 on failure) as the last entry of its history; on success
  the stress score and the lock are kept; on failure the stress score is incremented and, when
  it then exceeds 5, the lock is set to the clock reading plus 24 hours and the score reset to
  0, so a score of at most 5 stays at most 5. Six adverse completions in a row from a fresh profile leave the score at 1, 2, 3, 4, 5
  with no lock, and the sixth sets the lock and resets the score.
\<close>

theorem circuit_breaker:
  "(isSuccess dur ks \<longleftrightarrow> dur > 45 \<and> prediction_error (belief ks) < 0.5)
   \<and> registerSessionComplete now ks registry dur pid pid
        = Some (profile_or_new (registerSessionComplete now ks registry dur pid) pid)
   \<and> last (resonance_history (profile_or_new (registerSessionComplete now ks registry dur pid) pid))
        = (if isSuccess dur ks then 1 else 0)
   \<and> cummulative_stress_score (profile_or_new (registerSessionComplete now ks registry dur pid) pid)
        = (if isSuccess dur ks then cummulative_stress_score (profile_or_new registry pid)
           else if cummulative_stress_score (profile_or_new registry pid) + 1 > 5 then 0
           else cummulative_stress_score (profile_or_new registry pid) + 1)
   \<and> safety_lock_until (profile_or_new (registerSessionComplete now ks registry dur pid) pid)
        = (if \<not> isSuccess dur ks \<and> cummulative_stress_score (profile_or_new registry pid) + 1 > 5
           then now + 24 * 60 * 60 * 1000
           else safety_lock_until (profile_or_new registry pid))
   \<and> (cummulative_stress_score (profile_or_new registry pid) \<le> 5 \<longrightarrow>
        cummulative_stress_score (profile_or_new (registerSessionComplete now ks registry dur pid) pid) \<le> 5)
   \<and> (registry pid = None \<and> \<not> isSuccess d1 k1 \<and> \<not> isSuccess d2 k2 \<and> \<not> isSuccess d3 k3
        \<and> \<not> isSuccess d4 k4 \<and> \<not> isSuccess d5 k5 \<and> \<not> isSuccess d6 k6 \<longrightarrow>
        cummulative_stress_score (profile_or_new (complete_sessions registry pid
          [(n1, k1, d1)]) pid) = 1
      \<and> safety_lock_until (profile_or_new (complete_sessions registry pid
          [(n1, k1, d1)]) pid) = 0
      \<and> cummulative_stress_score (profile_or_new (complete_sessions registry pid
          [(n1, k1, d1), (n2, k2, d2)]) pid) = 2
      \<and> safety_lock_until (profile_or_new (complete_sessions registry pid
          [(n1, k1, d1), (n2, k2, d2)]) pid) = 0
      \<and> cummulative_stress_score (profile_or_new (complete_sessions registry pid
          [(n1, k1, d1), (n2, k2, d2), (n3, k3, d3)]) pid) = 3
      \<and> safety_lock_until (profile_or_new (complete_sessions registry pid
          [(n1, k1, d1), (n2, k2, d2), (n3, k3, d3)]) pid) = 0
      \<and> cummulative_stress_score (profile_or_new (complete_sessions registry pid
          [(n1, k1, d1), (n2, k2, d2), (n3, k3, d3), (n4, k4, d4)]) pid) = 4
      \<and> safety_lock_until (profile_or_new (complete_sessions registry pid
          [(n1, k1, d1), (n2, k2, d2), (n3, k3, d3), (n4, k4, d4)]) pid) = 0
      \<and> cummulative_stress_score (profile_or_new (complete_sessions registry pid
          [(n1, k1, d1), (n2, k2, d2), (n3, k3, d3), (n4, k4, d4), (n5, k5, d5)]) pid) = 5
      \<and> safety_lock_until (profile_or_new (complete_sessions registry pid
          [(n1, k1, d1), (n2, k2, d2), (n3, k3, d3), (n4, k4, d4), (n5, k5, d5)]) pid) = 0
      \<and> cummulative_stress_score (profile_or_new (complete_sessions registry pid
          [(n1, k1, d1), (n2, k2, d2), (n3, k3, d3), (n4, k4, d4), (n5, k5, d5), (n6, k6, d6)]) pid) = 0
      \<and> safety_lock_until (profile_or_new (complete_sessions registry pid
          [(n1, k1, d1), (n2, k2, d2), (n3, k3, d3), (n4, k4, d4), (n5, k5, d5), (n6, k6, d6)]) pid)
            = n6 + 24 * 60 * 60 * 1000)"
proof (intro conjI impI)
  show "isSuccess dur ks \<longleftrightarrow> dur > 45 \<and> prediction_error (belief ks) < 0.5"
    by (simp add: isSuccess_def)
  show "registerSessionComplete now ks registry dur pid pid
        = Some (profile_or_new (registerSessionComplete now ks registry dur pid) pid)"
    by (simp add: registerSessionComplete_def profile_or_new_def Let_def)
  show "last (resonance_history (profile_or_new (registerSessionComplete now ks registry dur pid) pid))
        = (if isSuccess dur ks then 1 else 0)"
    by (cases "resonance_history (profile_or_new registry pid)")
       (simp_all add: register_fields Let_def outcome_def)
qed (simp_all add: register_fields fresh_profile)

theorem circuit_breaker_witness:
  "Map.empty ''4-7-8'' = (None :: SafetyProfile option)
   \<and> \<not> isSuccess 60 adverse_snapshot
   \<and> cummulative_stress_score (profile_or_new (complete_sessions Map.empty ''4-7-8''
        [(100, adverse_snapshot, 60), (200, adverse_snapshot, 60), (300, adverse_snapshot, 60),
         (400, adverse_snapshot, 60), (500, adverse_snapshot, 60)]) ''4-7-8'') = 5
   \<and> safety_lock_until (profile_or_new (complete_sessions Map.empty ''4-7-8''
        [(100, adverse_snapshot, 60), (200, adverse_snapshot, 60), (300, adverse_snapshot, 60),
         (400, adverse_snapshot, 60), (500, adverse_snapshot, 60)]) ''4-7-8'') = 0
   \<and> cummulative_stress_score (profile_or_new (complete_sessions Map.empty ''4-7-8''
        [(100, adverse_snapshot, 60), (200, adverse_snapshot, 60), (300, adverse_snapshot, 60),
         (400, adverse_snapshot, 60), (500, adverse_snapshot, 60), (600, adverse_snapshot, 60)])
        ''4-7-8'') = 0
   \<and> safety_lock_until (profile_or_new (complete_sessions Map.empty ''4-7-8''
        [(100, adverse_snapshot, 60), (200, adverse_snapshot, 60), (300, adverse_snapshot, 60),
         (400, adverse_snapshot, 60), (500, adverse_snapshot, 60), (600, adverse_snapshot, 60)])
        ''4-7-8'') = 86400600"
proof -
  have f: "\<not> isSuccess 60 adverse_snapshot" by (rule adverse_snapshot_fails)
  have e: "Map.empty ''4-7-8'' = (None :: SafetyProfile option)" by simp
  show ?thesis
    using circuit_breaker [of 60 adverse_snapshot 100 Map.empty "''4-7-8''"
        60 adverse_snapshot 60 adverse_snapshot 60 adverse_snapshot 60 adverse_snapshot
        60 adverse_snapshot 60 adverse_snapshot 100 200 300 400 500 600] f e
    by simp
qed

text \<open>
  Claim C7 (sliding window). When the history of a profile holds at most 5 entries, the
  update leaves the most recent 5 entries of the history extended by the new outcome, and
  at most 5 entries; six completions from a fresh profile leave the outcomes of the last five.
\<close>

theorem resonance_window:
  assumes "length (resonance_history (profile_or_new registry pid)) \<le> 5"
  shows "resonance_history (profile_or_new (registerSessionComplete now ks registry dur pid) pid)
        = most_recent_5 (resonance_history (profile_or_new registry pid) @ [outcome dur ks])
    \<and> length (resonance_history (profile_or_new (registerSessionComplete now ks registry dur pid) pid)) \<le> 5
    \<and> (registry pid = None \<longrightarrow>
         resonance_history (profile_or_new (complete_sessions registry pid
           [(n1, k1, d1), (n2, k2, d2), (n3, k3, d3), (n4, k4, d4), (n5, k5, d5), (n6, k6, d6)]) pid)
         = [outcome d2 k2, outcome d3 k3, outcome d4 k4, outcome d5 k5, outcome d6 k6])"
proof (intro conjI impI)
  show "resonance_history (profile_or_new (registerSessionComplete now ks registry dur pid) pid)
        = most_recent_5 (resonance_history (profile_or_new registry pid) @ [outcome dur ks])"
    using assms trim_most_recent [of "resonance_history (profile_or_new registry pid) @ [outcome dur ks]"]
    by (simp add: register_fields Let_def)
  show "length (resonance_history (profile_or_new (registerSessionComplete now ks registry dur pid) pid)) \<le> 5"
    using assms by (auto simp: register_fields Let_def)
  assume "registry pid = None"
  then show "resonance_history (profile_or_new (complete_sessions registry pid
           [(n1, k1, d1), (n2, k2, d2), (n3, k3, d3), (n4, k4, d4), (n5, k5, d5), (n6, k6, d6)]) pid)
         = [outcome d2 k2, outcome d3 k3, outcome d4 k4, outcome d5 k5, outcome d6 k6]"
    by (simp add: register_fields fresh_profile Let_def)
qed

theorem resonance_window_witness:
  "length (resonance_history (profile_or_new Map.empty ''box'')) \<le> 5
   \<and> Map.empty ''box'' = (None :: SafetyProfile option)
   \<and> resonance_history (profile_or_new (complete_sessions Map.empty ''box''
        [(100, adverse_snapshot, 60), (200, createInitialState 0 0, 60), (300, createInitialState 0 0, 60),
         (400, adverse_snapshot, 60), (500, createInitialState 0 0, 60), (600, createInitialState 0 0, 30)])
        ''box'') = [1, 1, 0, 1, 0]"
proof -
  have l: "length (resonance_history (profile_or_new Map.empty ''box'')) \<le> 5"
    by (simp add: profile_or_new_def)
  have o: "outcome 60 adverse_snapshot = 0" "outcome 60 (createInitialState 0 0) = 1"
      "outcome 30 (createInitialState 0 0) = 0"
    by (simp_all add: outcome_def isSuccess_def adverse_snapshot_def createInitialState_def)
  show ?thesis
    using resonance_window [OF l, of 100 adverse_snapshot 60 100 adverse_snapshot 60
        200 "createInitialState 0 0" 60 300 "createInitialState 0 0" 60 400 adverse_snapshot 60
        500 "createInitialState 0 0" 60 600 "createInitialState 0 0" 30] l o
    by simp
qed

end
